theory Spec2Isabelle
  imports
    Complex_Main
    "HOL-Library.Char_ord"
    "HOL-Library.List_Lexorder"
    "HOL-Library.Option_ord"
    "HOL-Library.Product_Lexorder"
begin

section \<open>Python strings\<close>

text \<open>
  A Python \<open>str\<close> is modelled as a \<open>string\<close> holding its UTF-8 bytes. The model is exact
  on ASCII text (\<open>is_ascii\<close>). Outside ASCII, \<open>str.upper\<close> follows the Unicode case tables
  (the long s, U+017F, becomes \<open>S\<close>) and \<open>str.strip\<close> also removes the Unicode spaces (the
  no-break space, U+00A0); here a byte above 127 is left unchanged by \<open>str_upper\<close> and is
  never white space. A statement that depends on this difference carries the hypothesis
  \<open>is_ascii\<close>. Substring search and the ordering of strings agree with Python's on UTF-8
  bytes.
\<close>

definition is_ascii :: "string \<Rightarrow> bool" where
  "is_ascii s = list_all (\<lambda>c. (of_char c :: nat) < 128) s"

definition ascii_lowercase :: string where
  "ascii_lowercase = ''abcdefghijklmnopqrstuvwxyz''"

definition ascii_uppercase :: string where
  "ascii_uppercase = ''ABCDEFGHIJKLMNOPQRSTUVWXYZ''"

definition char_upper :: "char \<Rightarrow> char" where
  "char_upper c =
     (case map_of (zip ascii_lowercase ascii_uppercase) c of Some u \<Rightarrow> u | None \<Rightarrow> c)"

definition char_lower :: "char \<Rightarrow> char" where
  "char_lower c =
     (case map_of (zip ascii_uppercase ascii_lowercase) c of Some l \<Rightarrow> l | None \<Rightarrow> c)"

definition str_upper :: "string \<Rightarrow> string" where
  "str_upper s = map char_upper s"

definition str_lower :: "string \<Rightarrow> string" where
  "str_lower s = map char_lower s"

text \<open>
  The characters \<open>str.strip()\<close> removes: tab, line feed, vertical tab, form feed, carriage
  return, the four separators 0x1C to 0x1F, and the space.
\<close>

definition is_space :: "char \<Rightarrow> bool" where
  "is_space c = (c \<in> set [CHR 0x09, CHR 0x0A, CHR 0x0B, CHR 0x0C, CHR 0x0D,
                           CHR 0x1C, CHR 0x1D, CHR 0x1E, CHR 0x1F, CHR 0x20])"

definition str_strip :: "string \<Rightarrow> string" where
  "str_strip s = rev (dropWhile is_space (rev (dropWhile is_space s)))"

text \<open>\<open>s.replace(a, b)\<close> for a one-character \<open>a\<close> and \<open>b\<close>.\<close>

definition str_replace :: "char \<Rightarrow> char \<Rightarrow> string \<Rightarrow> string" where
  "str_replace a b s = map (\<lambda>c. if c = a then b else c) s"

fun starts_with :: "string \<Rightarrow> string \<Rightarrow> bool" where
  "starts_with s [] = True"
| "starts_with [] (p # ps) = False"
| "starts_with (c # cs) (p # ps) = (c = p \<and> starts_with cs ps)"

text \<open>\<open>p in s\<close>: the text \<open>p\<close> occurs somewhere in \<open>s\<close>.\<close>

fun str_contains :: "string \<Rightarrow> string \<Rightarrow> bool" where
  "str_contains [] p = (p = [])"
| "str_contains (c # cs) p = (starts_with (c # cs) p \<or> str_contains cs p)"

text \<open>\<open>sep.join(xs)\<close>.\<close>

fun str_join :: "string \<Rightarrow> string list \<Rightarrow> string" where
  "str_join sep [] = []"
| "str_join sep [x] = x"
| "str_join sep (x # y # ys) = x @ sep @ str_join sep (y # ys)"

section \<open>Errors\<close>

text \<open>The exceptions the modelled statements can raise; each one aborts the run.\<close>

datatype error = KeyError | ValueError

section \<open>The technology classifier\<close>

text \<open>
  \<open>_clasificar_tecnologia\<close>. The argument is an element of the \<open>tecnologia\<close> column, which
  has the nullable string type: \<open>None\<close> is the missing value, for which \<open>pd.isna\<close> holds.
  The labels are the source's string literals; the accented letter of the fourth one is
  written as its two UTF-8 bytes.
\<close>

definition COBRE :: string where "COBRE = ''COBRE''"
definition FIBRA :: string where "FIBRA = ''FIBRA''"
definition SATELITAL :: string where "SATELITAL = ''SATELITAL''"
definition INALAMBRICA :: string where
  "INALAMBRICA = ''INAL'' @ [CHR 0xC3, CHR 0x81] @ ''MBRICA''"
definition CABLE :: string where "CABLE = ''CABLE''"
definition OTRA :: string where "OTRA = ''OTRA''"

definition clasificar_tecnologia :: "string option \<Rightarrow> string" where
  "clasificar_tecnologia tec0 =
     (case tec0 of
        None \<Rightarrow> OTRA
      | Some t \<Rightarrow>
          (let tec = str_upper t in
           if tec \<in> set [''ADSL'', ''XDSL'', ''DSL''] then COBRE
           else if str_contains tec ''FIBRA'' then FIBRA
           else if str_contains tec ''SATELITAL'' then SATELITAL
           else if str_contains tec ''WIFI'' \<or> str_contains tec ''INALAMBRICO'' then INALAMBRICA
           else if str_contains tec ''CABLE'' then CABLE
           else OTRA))"

section \<open>Three-valued truth values\<close>

text \<open>
  An element of a column of the nullable \<open>boolean\<close> type is a \<open>bool option\<close>, \<open>None\<close> being
  \<open>pd.NA\<close>. The operator \<open>|\<close> on such columns is Kleene's disjunction.
\<close>

fun kleene_or :: "bool option \<Rightarrow> bool option \<Rightarrow> bool option" where
  "kleene_or (Some True) b = Some True"
| "kleene_or a (Some True) = Some True"
| "kleene_or (Some False) (Some False) = Some False"
| "kleene_or a b = None"

section \<open>Dropping columns\<close>

text \<open>
  \<open>df.drop(columns=labels, inplace=True)\<close> with the default \<open>errors='raise'\<close>. A frame is
  the list of its columns, each a label with the column's data. The call raises \<open>KeyError\<close>
  when a label is not a column of the frame; otherwise every column with one of the labels
  is removed.
\<close>

type_synonym 'c frame = "(string \<times> 'c) list"

definition columns :: "'c frame \<Rightarrow> string list" where
  "columns df = map fst df"

definition drop_columns :: "string list \<Rightarrow> 'c frame \<Rightarrow> error + 'c frame" where
  "drop_columns labels df =
     (if list_ex (\<lambda>l. l \<notin> set (columns df)) labels then Inl KeyError
      else Inr (filter (\<lambda>col. fst col \<notin> set labels) df))"

definition cols_to_drop_cobertura :: "string list" where
  "cols_to_drop_cobertura =
     [''COD DEPARTAMENTO'', ''COD MUNICIPIO'', ''CABECERA MUNICIPAL'', ''COD CENTRO POBLADO'']"

definition cols_to_drop_accesos :: "string list" where
  "cols_to_drop_accesos = [''COD_DEPARTAMENTO'', ''COD_MUNICIPIO'', ''SEGMENTO'']"

text \<open>The first statement of \<open>transform_cobertura_movil\<close> and of \<open>transform_accesos\<close>.\<close>

definition transform_cobertura_movil_drop :: "'c frame \<Rightarrow> error + 'c frame" where
  "transform_cobertura_movil_drop df = drop_columns cols_to_drop_cobertura df"

definition transform_accesos_drop :: "'c frame \<Rightarrow> error + 'c frame" where
  "transform_accesos_drop df = drop_columns cols_to_drop_accesos df"

section \<open>Rows\<close>

text \<open>
  After the drop, the statements of the two transformations work column by column, and
  each new value depends only on the values of the same row. They are modelled on rows,
  for a frame that has the columns the source reads. The five columns of the join key
  are common to both data sets: year and quarter hold integers, the other three text;
  \<open>None\<close> is a missing value. \<open>astype('string')\<close> keeps text and missing values as they are.
\<close>

record joinkey =
  ano :: "int option"
  trimestre :: "int option"
  departamento :: "string option"
  municipio :: "string option"
  proveedor :: "string option"

text \<open>
  An element of a text column read from a file: text, or the missing value \<open>NaN\<close>.
  \<open>pd.read_csv\<close>, called with its defaults in \<open>extract_data\<close>, stores a field as the
  missing value when it is empty or one of the other default markers, and as its text
  otherwise (in a column that is not read as numbers).
\<close>

datatype cell = Str string | Missing



text \<open>\<open>astype(str)\<close> turns the missing value \<open>NaN\<close> into the text \<open>nan\<close>.\<close>

definition astype_str :: "cell \<Rightarrow> string" where
  "astype_str c = (case c of Str s \<Rightarrow> s | Missing \<Rightarrow> ''nan'')"

section \<open>The coverage data set\<close>

record cobertura_raw = joinkey +
  raw_centro_poblado :: "string option"
  raw_2g :: cell
  raw_3g :: cell
  raw_4g :: cell
  raw_5g :: cell
  raw_lte :: cell
  raw_hspa :: cell

record cobertura_row = joinkey +
  centro_poblado :: "string option"
  cobertura_2g :: "bool option"
  cobertura_3g :: "bool option"
  cobertura_4g :: "bool option"
  cobertura_5g :: "bool option"
  cobertura_lte :: "bool option"
  cobertura_hspa :: "bool option"
  total_tecnologias :: int
  tiene_4g_o_mas :: "bool option"

text \<open>
  \<open>df[col].astype(str).str.strip().str.upper().map({'S': True, 'N': False}).astype('boolean')\<close>:
  a text that is not a key of the dictionary is mapped to the missing value.
\<close>

definition marker_dict :: "(string \<times> bool) list" where
  "marker_dict = [(''S'', True), (''N'', False)]"

definition coerce_marker :: "cell \<Rightarrow> bool option" where
  "coerce_marker c = map_of marker_dict (str_upper (str_strip (astype_str c)))"

text \<open>
  \<open>df[tech_cols].sum(axis=1)\<close>: a true marker counts 1, a false marker 0 and a missing
  marker is skipped.
\<close>

definition sum_markers :: "bool option list \<Rightarrow> int" where
  "sum_markers ms = sum_list (map (\<lambda>m. case m of Some True \<Rightarrow> 1 | _ \<Rightarrow> 0) ms)"

definition tech_cols :: "cobertura_raw \<Rightarrow> bool option list" where
  "tech_cols r = map coerce_marker [raw_2g r, raw_3g r, raw_4g r, raw_5g r, raw_lte r, raw_hspa r]"

definition transform_cobertura_row :: "cobertura_raw \<Rightarrow> cobertura_row" where
  "transform_cobertura_row r =
     \<lparr> ano = ano r, trimestre = trimestre r, departamento = departamento r,
       municipio = municipio r, proveedor = proveedor r,
       centro_poblado = raw_centro_poblado r,
       cobertura_2g = coerce_marker (raw_2g r),
       cobertura_3g = coerce_marker (raw_3g r),
       cobertura_4g = coerce_marker (raw_4g r),
       cobertura_5g = coerce_marker (raw_5g r),
       cobertura_lte = coerce_marker (raw_lte r),
       cobertura_hspa = coerce_marker (raw_hspa r),
       total_tecnologias = sum_markers (tech_cols r),
       tiene_4g_o_mas =
         kleene_or (kleene_or (coerce_marker (raw_4g r)) (coerce_marker (raw_lte r)))
           (coerce_marker (raw_5g r)) \<rparr>"

text \<open>\<open>df.drop_duplicates(inplace=True)\<close>: of equal rows the first one is kept.\<close>

fun drop_duplicates :: "'a list \<Rightarrow> 'a list" where
  "drop_duplicates [] = []"
| "drop_duplicates (x # xs) = x # drop_duplicates (filter (\<lambda>y. y \<noteq> x) xs)"

definition transform_cobertura_movil :: "cobertura_raw list \<Rightarrow> cobertura_row list" where
  "transform_cobertura_movil rows = drop_duplicates (map transform_cobertura_row rows)"

section \<open>Floating-point values\<close>

text \<open>
  A 64-bit float is modelled by the rational number it was rounded from, or one of the
  three special values. Rounding to 53 bits, overflow and the sign of zero are not
  modelled: \<open>Finite q\<close> stands for the float nearest to \<open>q\<close>.
\<close>

datatype pyfloat = Finite rat | PosInf | NegInf | NaN

fun fl_add :: "pyfloat \<Rightarrow> pyfloat \<Rightarrow> pyfloat" where
  "fl_add (Finite a) (Finite b) = Finite (a + b)"
| "fl_add NaN y = NaN"
| "fl_add x NaN = NaN"
| "fl_add PosInf NegInf = NaN"
| "fl_add NegInf PosInf = NaN"
| "fl_add PosInf y = PosInf"
| "fl_add x PosInf = PosInf"
| "fl_add NegInf y = NegInf"
| "fl_add x NegInf = NegInf"

fun fl_div_nat :: "pyfloat \<Rightarrow> nat \<Rightarrow> pyfloat" where
  "fl_div_nat (Finite a) n = Finite (a / of_nat n)"
| "fl_div_nat x n = x"

subsection \<open>Text to float\<close>

text \<open>
  \<open>astype(float)\<close> on a column of Python objects calls \<open>float(x)\<close> on each element. For a
  text, \<open>float\<close> removes the white space around it, checks that every underscore stands
  between two digits and removes the underscores, and then reads an optional sign followed
  by \<open>inf\<close>, \<open>infinity\<close> or \<open>nan\<close> in any case, or by a decimal number with an optional
  exponent. Any other text, the empty one included, raises \<open>ValueError\<close>. The model reads
  ASCII digits and ASCII white space; the Unicode decimal digits and spaces that \<open>float\<close>
  also accepts are not modelled, nor is the overflow of a large number to infinity.
\<close>

definition is_float_space :: "char \<Rightarrow> bool" where
  "is_float_space c = (c \<in> set [CHR 0x09, CHR 0x0A, CHR 0x0B, CHR 0x0C, CHR 0x0D, CHR 0x20])"

definition float_strip :: "string \<Rightarrow> string" where
  "float_strip s = rev (dropWhile is_float_space (rev (dropWhile is_float_space s)))"

definition is_digit :: "char \<Rightarrow> bool" where
  "is_digit c = (c \<in> set ''0123456789'')"

definition digit_val :: "char \<Rightarrow> nat" where
  "digit_val c = (case map_of (zip ''0123456789'' [0 ..< 10]) c of Some d \<Rightarrow> d | None \<Rightarrow> 0)"

definition digits_val :: "string \<Rightarrow> nat" where
  "digits_val ds = foldl (\<lambda>a c. 10 * a + digit_val c) 0 ds"

text \<open>
  \<open>remove_underscores prev s\<close> walks the text with the character before the current
  one (\<open>None\<close> at the start): an underscore must follow a digit and precede a digit.
\<close>

fun remove_underscores :: "char option \<Rightarrow> string \<Rightarrow> string option" where
  "remove_underscores prev [] = (if prev = Some CHR ''_'' then None else Some [])"
| "remove_underscores prev (c # cs) =
     (if c = CHR ''_'' then
        (case prev of
           None \<Rightarrow> None
         | Some p \<Rightarrow> if is_digit p then remove_underscores (Some c) cs else None)
      else if prev = Some CHR ''_'' \<and> \<not> is_digit c then None
      else map_option ((#) c) (remove_underscores (Some c) cs))"

definition split_sign :: "string \<Rightarrow> bool \<times> string" where
  "split_sign s =
     (case s of
        [] \<Rightarrow> (False, [])
      | c # cs \<Rightarrow> if c = CHR ''-'' then (True, cs) else if c = CHR ''+'' then (False, cs)
                 else (False, s))"

text \<open>The exponent part: nothing, or \<open>e\<close> or \<open>E\<close>, an optional sign and at least one digit.\<close>

definition parse_exponent :: "string \<Rightarrow> int option" where
  "parse_exponent s =
     (case s of
        [] \<Rightarrow> Some 0
      | c # cs \<Rightarrow>
          if c = CHR ''e'' \<or> c = CHR ''E'' then
            (let (neg, ds) = split_sign cs in
             if ds \<noteq> [] \<and> list_all is_digit ds
             then Some (if neg then - int (digits_val ds) else int (digits_val ds))
             else None)
          else None)"

definition pow10 :: "int \<Rightarrow> rat" where
  "pow10 e = (if 0 \<le> e then 10 ^ nat e else 1 / 10 ^ nat (- e))"

text \<open>An unsigned decimal number: digits, an optional point and digits, an optional exponent.\<close>

definition parse_decimal :: "string \<Rightarrow> rat option" where
  "parse_decimal s =
     (let ip = takeWhile is_digit s;
          r1 = dropWhile is_digit s;
          has_point = (r1 \<noteq> [] \<and> hd r1 = CHR ''.'');
          fp = (if has_point then takeWhile is_digit (tl r1) else []);
          r2 = (if has_point then dropWhile is_digit (tl r1) else r1)
      in if ip = [] \<and> fp = [] then None
         else (case parse_exponent r2 of
                 None \<Rightarrow> None
               | Some e \<Rightarrow> Some (of_nat (digits_val (ip @ fp)) * pow10 (e - int (length fp)))))"

definition py_float :: "string \<Rightarrow> error + pyfloat" where
  "py_float s =
     (case remove_underscores None (float_strip s) of
        None \<Rightarrow> Inl ValueError
      | Some t \<Rightarrow>
          (let (neg, u) = split_sign t; l = str_lower u in
           if l = ''inf'' \<or> l = ''infinity'' then Inr (if neg then NegInf else PosInf)
           else if l = ''nan'' then Inr NaN
           else (case parse_decimal u of
                   None \<Rightarrow> Inl ValueError
                 | Some q \<Rightarrow> Inr (Finite (if neg then - q else q)))))"

section \<open>The access data set\<close>

text \<open>
  The type of a column, as far as line 96 of the source tells types apart: a column of
  Python objects (\<open>object\<close>, what \<open>read_csv\<close> of pandas 1 and 2 gives a text column), the
  nullable string type (\<open>string\<close>), the string type that \<open>read_csv\<close> of pandas 3 gives a
  text column (\<open>str\<close>), and the numeric types.
\<close>

datatype dtype = ObjectDtype | StringDtype | StrDtype | Float64Dtype | Int64Dtype

definition dtype_name :: "dtype \<Rightarrow> string" where
  "dtype_name d =
     (case d of
        ObjectDtype \<Rightarrow> ''object''
      | StringDtype \<Rightarrow> ''string''
      | StrDtype \<Rightarrow> ''str''
      | Float64Dtype \<Rightarrow> ''float64''
      | Int64Dtype \<Rightarrow> ''int64'')"

text \<open>
  An element of one of the three numeric columns: an element of a text column (\<open>Txt\<close>), or
  a number (\<open>Num\<close>) when the file reader has given the column a numeric type, missing values
  being \<open>NaN\<close> there.
\<close>

datatype num_cell = Txt cell | Num pyfloat

text \<open>
  \<open>astype(str)\<close> on a column of the given type: the missing value of the nullable string
  type is \<open>pd.NA\<close> and becomes the text \<open><NA>\<close>; elsewhere it is \<open>NaN\<close> and becomes \<open>nan\<close>.
\<close>

definition astype_str_of :: "dtype \<Rightarrow> cell \<Rightarrow> string" where
  "astype_str_of d c =
     (case c of Str s \<Rightarrow> s | Missing \<Rightarrow> if d = StringDtype then ''<NA>'' else ''nan'')"

text \<open>\<open>astype(float)\<close> on an element of a text column: a missing value stays missing.\<close>

definition astype_float :: "cell \<Rightarrow> error + pyfloat" where
  "astype_float c = (case c of Str s \<Rightarrow> py_float s | Missing \<Rightarrow> Inr NaN)"

text \<open>
  Lines 96 to 98 for one element of a column of type \<open>d\<close>:
  \<^verbatim>\<open>if df[col].dtype == 'object' or df[col].dtype.name == 'string':\<close>
  \<^verbatim>\<open>    df[col] = df[col].astype(str).str.replace(',', '.', regex=False)\<close>
  \<^verbatim>\<open>df[col] = df[col].astype(float)\<close>
  A number is left as it is by both statements.
\<close>

definition coerce_numeric :: "dtype \<Rightarrow> num_cell \<Rightarrow> error + pyfloat" where
  "coerce_numeric d x =
     (case x of
        Num v \<Rightarrow> Inr v
      | Txt c \<Rightarrow>
          if d = ObjectDtype \<or> dtype_name d = ''string''
          then py_float (str_replace CHR '','' CHR ''.'' (astype_str_of d c))
          else astype_float c)"

record accesos_raw = joinkey +
  raw_tecnologia :: "string option"
  raw_velocidad_bajada :: num_cell
  raw_velocidad_subida :: num_cell
  raw_no_de_accesos :: num_cell

text \<open>The types of the three numeric columns of the frame.\<close>

record accesos_dtypes =
  dtype_velocidad_bajada :: dtype
  dtype_velocidad_subida :: dtype
  dtype_no_de_accesos :: dtype

record accesos_row = joinkey +
  tecnologia :: "string option"
  velocidad_bajada :: pyfloat
  velocidad_subida :: pyfloat
  no_de_accesos :: pyfloat
  velocidad_total :: pyfloat
  tipo_tecnologia :: string

definition transform_accesos_row :: "accesos_dtypes \<Rightarrow> accesos_raw \<Rightarrow> error + accesos_row" where
  "transform_accesos_row dts r =
     (case coerce_numeric (dtype_velocidad_bajada dts) (raw_velocidad_bajada r) of
        Inl e \<Rightarrow> Inl e
      | Inr bajada \<Rightarrow>
     (case coerce_numeric (dtype_velocidad_subida dts) (raw_velocidad_subida r) of
        Inl e \<Rightarrow> Inl e
      | Inr subida \<Rightarrow>
     (case coerce_numeric (dtype_no_de_accesos dts) (raw_no_de_accesos r) of
        Inl e \<Rightarrow> Inl e
      | Inr accesos \<Rightarrow>
          Inr \<lparr> ano = ano r, trimestre = trimestre r, departamento = departamento r,
                municipio = municipio r, proveedor = proveedor r,
                tecnologia = raw_tecnologia r,
                velocidad_bajada = bajada,
                velocidad_subida = subida,
                no_de_accesos = accesos,
                velocidad_total = fl_add bajada subida,
                tipo_tecnologia = clasificar_tecnologia (raw_tecnologia r) \<rparr>)))"

text \<open>The whole data set: the first value that cannot be read aborts the run.\<close>

fun transform_accesos :: "accesos_dtypes \<Rightarrow> accesos_raw list \<Rightarrow> error + accesos_row list" where
  "transform_accesos dts [] = Inr []"
| "transform_accesos dts (r # rs) =
     (case transform_accesos_row dts r of
        Inl e \<Rightarrow> Inl e
      | Inr x \<Rightarrow>
          (case transform_accesos dts rs of Inl e \<Rightarrow> Inl e | Inr xs \<Rightarrow> Inr (x # xs)))"

section \<open>Grouping and merging\<close>

text \<open>
  \<open>df.groupby(keys, as_index=False).agg(...)\<close> with the defaults \<open>sort=True\<close> and
  \<open>dropna=True\<close>: rows with a missing value in a key column are left out, there is one
  group for each key that remains, and the groups come in ascending order of the key.
  The result is the list of the keys, each with the reduced values of its group.
\<close>

definition key_complete :: "joinkey \<Rightarrow> bool" where
  "key_complete k \<longleftrightarrow>
     ano k \<noteq> None \<and> trimestre k \<noteq> None \<and> departamento k \<noteq> None \<and>
     municipio k \<noteq> None \<and> proveedor k \<noteq> None"

definition key_tuple ::
  "joinkey \<Rightarrow> int option \<times> int option \<times> string option \<times> string option \<times> string option" where
  "key_tuple k = (ano k, trimestre k, departamento k, municipio k, proveedor k)"

definition groupby :: "('r \<Rightarrow> joinkey) \<Rightarrow> ('r list \<Rightarrow> 'a) \<Rightarrow> 'r list \<Rightarrow> (joinkey \<times> 'a) list" where
  "groupby key agg rows =
     (let kept = filter (\<lambda>r. key_complete (key r)) rows;
          keys = sort_key key_tuple (remdups (map key kept))
      in map (\<lambda>k. (k, agg (filter (\<lambda>r. key r = k) kept))) keys)"

text \<open>\<open>x.dropna()\<close> on a column of nullable text.\<close>

definition dropna :: "'a option list \<Rightarrow> 'a list" where
  "dropna xs = concat (map (\<lambda>x. case x of None \<Rightarrow> [] | Some v \<Rightarrow> [v]) xs)"

text \<open>\<open>lambda x: ', '.join(sorted(set(x.dropna())))\<close>.\<close>

definition join_sorted_set :: "string option list \<Rightarrow> string" where
  "join_sorted_set xs = str_join '', '' (sort (remdups (dropna xs)))"

text \<open>
  The reducer \<open>'any'\<close> on a nullable boolean column: the result starts as false, a missing
  value is skipped, a true value makes the result true. The result is never missing.
\<close>

definition group_any :: "bool option list \<Rightarrow> bool option" where
  "group_any xs = Some (fold (\<lambda>x acc. case x of None \<Rightarrow> acc | Some b \<Rightarrow> acc \<or> b) xs False)"

text \<open>The reducer \<open>'mean'\<close> on the integer column \<open>total_tecnologias\<close> of a group.\<close>

definition mean_int :: "int list \<Rightarrow> rat" where
  "mean_int xs = of_int (sum_list xs) / of_nat (length xs)"

text \<open>The reducers \<open>'sum'\<close> and \<open>'mean'\<close> on a float column: \<open>NaN\<close> values are skipped.\<close>

definition fl_sum :: "pyfloat list \<Rightarrow> pyfloat" where
  "fl_sum xs = fold (\<lambda>x acc. fl_add acc x) (filter (\<lambda>x. x \<noteq> NaN) xs) (Finite 0)"

definition fl_mean :: "pyfloat list \<Rightarrow> pyfloat" where
  "fl_mean xs =
     (let ys = filter (\<lambda>x. x \<noteq> NaN) xs
      in if ys = [] then NaN else fl_div_nat (fl_sum ys) (length ys))"

record cobertura_agg =
  centro_poblado_join :: string
  cobertura_2g_any :: "bool option"
  cobertura_3g_any :: "bool option"
  cobertura_hspa_any :: "bool option"
  cobertura_4g_any :: "bool option"
  cobertura_lte_any :: "bool option"
  cobertura_5g_any :: "bool option"
  total_tecnologias_mean :: rat
  tiene_4g_o_mas_any :: "bool option"

definition agg_cobertura :: "cobertura_row list \<Rightarrow> cobertura_agg" where
  "agg_cobertura g =
     \<lparr> centro_poblado_join = join_sorted_set (map centro_poblado g),
       cobertura_2g_any = group_any (map cobertura_2g g),
       cobertura_3g_any = group_any (map cobertura_3g g),
       cobertura_hspa_any = group_any (map cobertura_hspa g),
       cobertura_4g_any = group_any (map cobertura_4g g),
       cobertura_lte_any = group_any (map cobertura_lte g),
       cobertura_5g_any = group_any (map cobertura_5g g),
       total_tecnologias_mean = mean_int (map total_tecnologias g),
       tiene_4g_o_mas_any = group_any (map tiene_4g_o_mas g) \<rparr>"

record accesos_agg =
  tecnologia_join :: string
  velocidad_bajada_mean :: pyfloat
  velocidad_subida_mean :: pyfloat
  no_de_accesos_sum :: pyfloat
  velocidad_total_mean :: pyfloat
  tipo_tecnologia_join :: string

definition agg_accesos :: "accesos_row list \<Rightarrow> accesos_agg" where
  "agg_accesos g =
     \<lparr> tecnologia_join = join_sorted_set (map tecnologia g),
       velocidad_bajada_mean = fl_mean (map velocidad_bajada g),
       velocidad_subida_mean = fl_mean (map velocidad_subida g),
       no_de_accesos_sum = fl_sum (map no_de_accesos g),
       velocidad_total_mean = fl_mean (map velocidad_total g),
       tipo_tecnologia_join = join_sorted_set (map (\<lambda>r. Some (tipo_tecnologia r)) g) \<rparr>"

definition cobertura_grouped :: "cobertura_row list \<Rightarrow> (joinkey \<times> cobertura_agg) list" where
  "cobertura_grouped df_cobertura = groupby joinkey.truncate agg_cobertura df_cobertura"

definition accesos_grouped :: "accesos_row list \<Rightarrow> (joinkey \<times> accesos_agg) list" where
  "accesos_grouped df_accesos = groupby joinkey.truncate agg_accesos df_accesos"

text \<open>
  \<open>pd.merge(left, right, on=keys, how='inner')\<close>: one row for every pair of a left and a
  right row with the same key, in the order of the left rows.
\<close>

definition merge_inner :: "(joinkey \<times> 'a) list \<Rightarrow> (joinkey \<times> 'b) list \<Rightarrow> (joinkey \<times> 'a \<times> 'b) list" where
  "merge_inner left right =
     concat (map (\<lambda>l. map (\<lambda>r. (fst l, snd l, snd r)) (filter (\<lambda>r. fst r = fst l) right)) left)"

definition merge_datasets ::
  "cobertura_row list \<Rightarrow> accesos_row list \<Rightarrow> (joinkey \<times> cobertura_agg \<times> accesos_agg) list" where
  "merge_datasets df_cobertura df_accesos =
     merge_inner (cobertura_grouped df_cobertura) (accesos_grouped df_accesos)"

section \<open>Example data\<close>

text \<open>
  A small coverage data set and a small access data set. Provider \<open>CLARO\<close> in Medellin
  occurs in both, with two coverage rows; \<open>TIGO\<close> occurs in the coverage data only and
  \<open>MOVISTAR\<close> in the access data only; one row of each data set has a missing value in
  a key column.
\<close>

definition key_claro :: joinkey where
  "key_claro = \<lparr> ano = Some 2023, trimestre = Some 1, departamento = Some ''ANTIOQUIA'',
                  municipio = Some ''MEDELLIN'', proveedor = Some ''CLARO'' \<rparr>"

definition cob_claro_1 :: cobertura_raw where
  "cob_claro_1 = \<lparr> ano = Some 2023, trimestre = Some 1, departamento = Some ''ANTIOQUIA'',
       municipio = Some ''MEDELLIN'', proveedor = Some ''CLARO'',
       raw_centro_poblado = Some ''SANTA ELENA'',
       raw_2g = Str ''N'', raw_3g = Str ''N'', raw_4g = Str ''N'', raw_5g = Missing,
       raw_lte = Str ''n'', raw_hspa = Str ''NO'' \<rparr>"

definition cob_claro_2 :: cobertura_raw where
  "cob_claro_2 = \<lparr> ano = Some 2023, trimestre = Some 1, departamento = Some ''ANTIOQUIA'',
       municipio = Some ''MEDELLIN'', proveedor = Some ''CLARO'',
       raw_centro_poblado = Some ''MEDELLIN'',
       raw_2g = Str ''S'', raw_3g = Str '' s '', raw_4g = Str ''S'', raw_5g = Missing,
       raw_lte = Str ''N'', raw_hspa = Missing \<rparr>"

definition cob_tigo :: cobertura_raw where
  "cob_tigo = \<lparr> ano = Some 2023, trimestre = Some 1, departamento = Some ''ANTIOQUIA'',
       municipio = Some ''MEDELLIN'', proveedor = Some ''TIGO'',
       raw_centro_poblado = None,
       raw_2g = Str ''S'', raw_3g = Str ''S'', raw_4g = Str ''N'', raw_5g = Str ''N'',
       raw_lte = Str ''N'', raw_hspa = Str ''N'' \<rparr>"

definition cob_no_key :: cobertura_raw where
  "cob_no_key = \<lparr> ano = Some 2023, trimestre = Some 1, departamento = Some ''ANTIOQUIA'',
       municipio = Some ''MEDELLIN'', proveedor = None,
       raw_centro_poblado = Some ''MEDELLIN'',
       raw_2g = Str ''S'', raw_3g = Str ''S'', raw_4g = Str ''S'', raw_5g = Str ''S'',
       raw_lte = Str ''S'', raw_hspa = Str ''S'' \<rparr>"

definition example_cobertura :: "cobertura_raw list" where
  "example_cobertura = [cob_claro_1, cob_tigo, cob_claro_2, cob_no_key, cob_claro_1]"

definition acc_claro :: accesos_raw where
  "acc_claro = \<lparr> ano = Some 2023, trimestre = Some 1, departamento = Some ''ANTIOQUIA'',
       municipio = Some ''MEDELLIN'', proveedor = Some ''CLARO'',
       raw_tecnologia = Some ''FIBRA'',
       raw_velocidad_bajada = Txt (Str ''50,0''), raw_velocidad_subida = Txt (Str ''10,0''),
       raw_no_de_accesos = Txt (Str ''100'') \<rparr>"

definition acc_movistar :: accesos_raw where
  "acc_movistar = \<lparr> ano = Some 2023, trimestre = Some 1, departamento = Some ''ANTIOQUIA'',
       municipio = Some ''MEDELLIN'', proveedor = Some ''MOVISTAR'',
       raw_tecnologia = Some ''Cable'',
       raw_velocidad_bajada = Txt (Str ''20''), raw_velocidad_subida = Txt (Str ''5''),
       raw_no_de_accesos = Txt (Str ''7'') \<rparr>"

definition acc_no_key :: accesos_raw where
  "acc_no_key = \<lparr> ano = Some 2023, trimestre = Some 1, departamento = Some ''ANTIOQUIA'',
       municipio = None, proveedor = Some ''CLARO'',
       raw_tecnologia = None,
       raw_velocidad_bajada = Txt Missing, raw_velocidad_subida = Txt (Str ''1.5''),
       raw_no_de_accesos = Txt (Str ''3'') \<rparr>"

definition example_accesos :: "accesos_raw list" where
  "example_accesos = [acc_movistar, acc_no_key, acc_claro]"

text \<open>
  The types of the numeric columns when the file reader gives text columns the type
  \<open>object\<close>, and when it gives them the type \<open>str\<close>.
\<close>

definition object_dtypes :: accesos_dtypes where
  "object_dtypes = \<lparr> dtype_velocidad_bajada = ObjectDtype, dtype_velocidad_subida = ObjectDtype,
                      dtype_no_de_accesos = ObjectDtype \<rparr>"


text \<open>The two example data sets after normalization.\<close>

definition example_df_cobertura :: "cobertura_row list" where
  "example_df_cobertura = transform_cobertura_movil example_cobertura"

definition example_df_accesos :: "accesos_row list" where
  "example_df_accesos =
     (case transform_accesos object_dtypes example_accesos of Inr rows \<Rightarrow> rows | Inl e \<Rightarrow> [])"

definition key_tigo :: joinkey where
  "key_tigo = \<lparr> ano = Some 2023, trimestre = Some 1, departamento = Some ''ANTIOQUIA'',
                 municipio = Some ''MEDELLIN'', proveedor = Some ''TIGO'' \<rparr>"

definition key_movistar :: joinkey where
  "key_movistar = \<lparr> ano = Some 2023, trimestre = Some 1, departamento = Some ''ANTIOQUIA'',
                     municipio = Some ''MEDELLIN'', proveedor = Some ''MOVISTAR'' \<rparr>"


section \<open>Facts about strings\<close>

lemma starts_with_iff: "starts_with s p \<longleftrightarrow> (\<exists>r. s = p @ r)"
  by (induction s p rule: starts_with.induct) auto

lemma str_contains_iff: "str_contains s p \<longleftrightarrow> (\<exists>a b. s = a @ p @ b)"
proof (induction s)
  case Nil
  then show ?case by auto
next
  case (Cons c cs)
  show ?case
  proof
    assume "str_contains (c # cs) p"
    then consider "starts_with (c # cs) p" | "str_contains cs p" by auto
    then show "\<exists>a b. c # cs = a @ p @ b"
    proof cases
      case 1
      then obtain r where "c # cs = p @ r" by (auto simp: starts_with_iff)
      then have "c # cs = [] @ p @ r" by simp
      then show ?thesis by blast
    next
      case 2
      then obtain a b where "cs = a @ p @ b" using Cons.IH by blast
      then have "c # cs = (c # a) @ p @ b" by simp
      then show ?thesis by blast
    qed
  next
    assume "\<exists>a b. c # cs = a @ p @ b"
    then obtain a b where ab: "c # cs = a @ p @ b" by blast
    show "str_contains (c # cs) p"
    proof (cases a)
      case Nil
      with ab have "starts_with (c # cs) p" by (auto simp: starts_with_iff)
      then show ?thesis by simp
    next
      case (Cons a0 as)
      with ab have "cs = as @ p @ b" by simp
      then have "str_contains cs p" using Cons.IH by blast
      then show ?thesis by simp
    qed
  qed
qed

section \<open>The technology classifier: properties\<close>

lemmas label_defs = COBRE_def FIBRA_def SATELITAL_def INALAMBRICA_def CABLE_def OTRA_def

lemmas upper_eval = str_upper_def char_upper_def ascii_lowercase_def ascii_uppercase_def

text \<open>None of the three texts of the exact test contains a keyword of a later test.\<close>

lemma dsl_no_keyword:
  assumes "u \<in> set [''ADSL'', ''XDSL'', ''DSL'']"
  shows "\<not> str_contains u ''FIBRA''" and "\<not> str_contains u ''SATELITAL''"
    and "\<not> str_contains u ''WIFI''" and "\<not> str_contains u ''INALAMBRICO''"
    and "\<not> str_contains u ''CABLE''"
  using assms by auto

lemma labels_distinct: "distinct [COBRE, FIBRA, SATELITAL, INALAMBRICA, CABLE, OTRA]"
  by (simp add: label_defs)

text \<open>
  C2, as stated, fails: the classifier tests the Spanish keywords only. The English words
  \<open>FIBER\<close>, \<open>SATELLITE\<close> and \<open>WIRELESS\<close> match no test and get the label \<open>OTRA\<close>.
\<close>

theorem clasificar_english_counterexample:
  "clasificar_tecnologia (Some ''FIBER'') = OTRA \<and>
   clasificar_tecnologia (Some ''SATELLITE'') = OTRA \<and>
   clasificar_tecnologia (Some ''WIRELESS'') = OTRA \<and>
   OTRA \<notin> set [FIBRA, SATELITAL, INALAMBRICA]"
  by (simp add: clasificar_tecnologia_def upper_eval label_defs)

text \<open>
  C2, amended: for every text that is not missing, with \<open>u\<close> its upper-case form:
  if \<open>u\<close> contains \<open>FIBRA\<close> the label is \<open>FIBRA\<close>; if it contains \<open>SATELITAL\<close> and not
  \<open>FIBRA\<close> the label is \<open>SATELITAL\<close>; if it contains \<open>WIFI\<close> or \<open>INALAMBRICO\<close> and neither of
  the former the label is \<open>INALAMBRICA\<close>. No other keyword is tested for these labels: a
  text that is none of \<open>ADSL\<close>, \<open>XDSL\<close>, \<open>DSL\<close> and contains none of the five Spanish
  keywords gets \<open>OTRA\<close>, whatever English word it contains.
\<close>

theorem clasificar_spanish_substrings:
  "(str_contains (str_upper t) ''FIBRA'' \<longrightarrow> clasificar_tecnologia (Some t) = FIBRA) \<and>
   (\<not> str_contains (str_upper t) ''FIBRA'' \<and> str_contains (str_upper t) ''SATELITAL''
      \<longrightarrow> clasificar_tecnologia (Some t) = SATELITAL) \<and>
   (\<not> str_contains (str_upper t) ''FIBRA'' \<and> \<not> str_contains (str_upper t) ''SATELITAL'' \<and>
    (str_contains (str_upper t) ''WIFI'' \<or> str_contains (str_upper t) ''INALAMBRICO'')
      \<longrightarrow> clasificar_tecnologia (Some t) = INALAMBRICA) \<and>
   (str_upper t \<notin> set [''ADSL'', ''XDSL'', ''DSL''] \<and>
    \<not> str_contains (str_upper t) ''FIBRA'' \<and> \<not> str_contains (str_upper t) ''SATELITAL'' \<and>
    \<not> str_contains (str_upper t) ''WIFI'' \<and> \<not> str_contains (str_upper t) ''INALAMBRICO'' \<and>
    \<not> str_contains (str_upper t) ''CABLE''
      \<longrightarrow> clasificar_tecnologia (Some t) = OTRA)"
proof -
  let ?u = "str_upper t"
  have fibra: "clasificar_tecnologia (Some t) = FIBRA" if "str_contains ?u ''FIBRA''"
    using that dsl_no_keyword(1)[of ?u] by (auto simp: clasificar_tecnologia_def Let_def)
  have sat: "clasificar_tecnologia (Some t) = SATELITAL"
    if "\<not> str_contains ?u ''FIBRA''" "str_contains ?u ''SATELITAL''"
    using that dsl_no_keyword(2)[of ?u] by (auto simp: clasificar_tecnologia_def Let_def)
  have inal: "clasificar_tecnologia (Some t) = INALAMBRICA"
    if "\<not> str_contains ?u ''FIBRA''" "\<not> str_contains ?u ''SATELITAL''"
       "str_contains ?u ''WIFI'' \<or> str_contains ?u ''INALAMBRICO''"
    using that dsl_no_keyword(3,4)[of ?u] by (auto simp: clasificar_tecnologia_def Let_def)
  have otra: "clasificar_tecnologia (Some t) = OTRA"
    if "?u \<notin> set [''ADSL'', ''XDSL'', ''DSL'']"
       "\<not> str_contains ?u ''FIBRA''" "\<not> str_contains ?u ''SATELITAL''"
       "\<not> str_contains ?u ''WIFI''" "\<not> str_contains ?u ''INALAMBRICO''"
       "\<not> str_contains ?u ''CABLE''"
    using that by (simp add: clasificar_tecnologia_def Let_def)
  show ?thesis using fibra sat inal otra by blast
qed

theorem clasificar_spanish_substrings_witness:
  "clasificar_tecnologia (Some ''Fibra optica'') = FIBRA \<and>
   clasificar_tecnologia (Some ''Cable satelital'') = SATELITAL \<and>
   clasificar_tecnologia (Some ''wifi'') = INALAMBRICA \<and>
   clasificar_tecnologia (Some ''Fiber to the home'') = OTRA"
proof -
  have u1: "str_upper ''Fibra optica'' = ''FIBRA OPTICA''"
    and u2: "str_upper ''Cable satelital'' = ''CABLE SATELITAL''"
    and u3: "str_upper ''wifi'' = ''WIFI''"
    and u4: "str_upper ''Fiber to the home'' = ''FIBER TO THE HOME''"
    by (simp_all add: upper_eval)
  have "clasificar_tecnologia (Some ''Fibra optica'') = FIBRA"
    using clasificar_spanish_substrings [of "''Fibra optica''"] by (simp add: u1)
  moreover have "clasificar_tecnologia (Some ''Cable satelital'') = SATELITAL"
    using clasificar_spanish_substrings [of "''Cable satelital''"] by (simp add: u2)
  moreover have "clasificar_tecnologia (Some ''wifi'') = INALAMBRICA"
    using clasificar_spanish_substrings [of "''wifi''"] by (simp add: u3)
  moreover have "clasificar_tecnologia (Some ''Fiber to the home'') = OTRA"
    using clasificar_spanish_substrings [of "''Fiber to the home''"] by (simp add: u4)
  ultimately show ?thesis by simp
qed

text \<open>
  C3: the classifier is total, every input (the missing value and unrecognised texts
  included) getting exactly one of the six labels, which are pairwise different. The
  tests run in a fixed order and the first that holds decides: the missing value gives
  \<open>OTRA\<close>; a text equal to \<open>ADSL\<close>, \<open>XDSL\<close> or \<open>DSL\<close> in upper case gives \<open>COBRE\<close>; then
  come, in this order, \<open>FIBRA\<close>, \<open>SATELITAL\<close>, \<open>INALAMBRICA\<close> (keywords \<open>WIFI\<close> and
  \<open>INALAMBRICO\<close>) and \<open>CABLE\<close>; everything else gives \<open>OTRA\<close>. The text \<open>CABLE FIBRA\<close> gets
  \<open>FIBRA\<close>, since that test comes before the one for \<open>CABLE\<close>. The labels \<open>COPPER\<close>,
  \<open>FIBER\<close>, \<open>SATELLITE\<close>, \<open>WIRELESS\<close> and \<open>OTHER\<close> of the specification are the source's
  \<open>COBRE\<close>, \<open>FIBRA\<close>, \<open>SATELITAL\<close>, \<open>INALAMBRICA\<close> and \<open>OTRA\<close>.
\<close>

theorem clasificar_total_ordered:
  "clasificar_tecnologia tec \<in> set [COBRE, FIBRA, SATELITAL, INALAMBRICA, CABLE, OTRA] \<and>
   distinct [COBRE, FIBRA, SATELITAL, INALAMBRICA, CABLE, OTRA] \<and>
   clasificar_tecnologia None = OTRA \<and>
   (str_upper t \<in> set [''ADSL'', ''XDSL'', ''DSL''] \<longrightarrow> clasificar_tecnologia (Some t) = COBRE) \<and>
   (str_upper t \<notin> set [''ADSL'', ''XDSL'', ''DSL''] \<longrightarrow>
      clasificar_tecnologia (Some t) =
        (if str_contains (str_upper t) ''FIBRA'' then FIBRA
         else if str_contains (str_upper t) ''SATELITAL'' then SATELITAL
         else if str_contains (str_upper t) ''WIFI'' \<or> str_contains (str_upper t) ''INALAMBRICO''
           then INALAMBRICA
         else if str_contains (str_upper t) ''CABLE'' then CABLE
         else OTRA)) \<and>
   clasificar_tecnologia (Some ''CABLE FIBRA'') = FIBRA"
proof -
  have total: "clasificar_tecnologia tec \<in> set [COBRE, FIBRA, SATELITAL, INALAMBRICA, CABLE, OTRA]"
    by (cases tec) (simp_all add: clasificar_tecnologia_def Let_def)
  have ex: "clasificar_tecnologia (Some ''CABLE FIBRA'') = FIBRA"
    by (simp add: clasificar_tecnologia_def upper_eval)
  show ?thesis
    using total labels_distinct ex by (simp add: clasificar_tecnologia_def Let_def)
qed

theorem clasificar_total_ordered_witness:
  "clasificar_tecnologia (Some ''xDSL'') = COBRE \<and>
   clasificar_tecnologia (Some ''cable wifi'') = INALAMBRICA \<and>
   clasificar_tecnologia (Some ''Cable coaxial'') = CABLE"
proof -
  have u1: "str_upper ''xDSL'' = ''XDSL''"
    and u2: "str_upper ''cable wifi'' = ''CABLE WIFI''"
    and u3: "str_upper ''Cable coaxial'' = ''CABLE COAXIAL''"
    by (simp_all add: upper_eval)
  have "clasificar_tecnologia (Some ''xDSL'') = COBRE"
    using clasificar_total_ordered [of None "''xDSL''"] by (simp add: u1)
  moreover have "clasificar_tecnologia (Some ''cable wifi'') = INALAMBRICA"
    using clasificar_total_ordered [of None "''cable wifi''"] by (simp add: u2)
  moreover have "clasificar_tecnologia (Some ''Cable coaxial'') = CABLE"
    using clasificar_total_ordered [of None "''Cable coaxial''"] by (simp add: u3)
  ultimately show ?thesis by simp
qed

section \<open>Dropping columns: properties\<close>

lemma drop_columns_Inl:
  "drop_columns labels df = Inl e \<longleftrightarrow> e = KeyError \<and> \<not> set labels \<subseteq> set (columns df)"
  by (auto simp: drop_columns_def list_ex_iff)

lemma drop_columns_Inr:
  "drop_columns labels df = Inr df' \<longleftrightarrow>
     set labels \<subseteq> set (columns df) \<and> df' = filter (\<lambda>col. fst col \<notin> set labels) df"
  by (auto simp: drop_columns_def list_ex_iff)

text \<open>
  C1, as stated, fails: the drop is called without \<open>errors='ignore'\<close>, so a frame that
  lacks one of the listed columns makes it raise \<open>KeyError\<close>. The access frame below has
  no \<open>SEGMENTO\<close> column, the coverage frame no \<open>CABECERA MUNICIPAL\<close> column.
\<close>

theorem drop_missing_column_counterexample:
  "transform_accesos_drop
     [(''COD_DEPARTAMENTO'', [''5'']), (''COD_MUNICIPIO'', [''5001'']), (''PROVEEDOR'', [''CLARO''])]
     = Inl KeyError \<and>
   transform_cobertura_movil_drop
     [(''COD DEPARTAMENTO'', [''5'']), (''COD MUNICIPIO'', [''5001'']),
      (''COD CENTRO POBLADO'', [''5001000'']), (''PROVEEDOR'', [''CLARO''])]
     = Inl KeyError"
  by (simp add: transform_accesos_drop_def transform_cobertura_movil_drop_def drop_columns_def
      cols_to_drop_accesos_def cols_to_drop_cobertura_def columns_def)

text \<open>
  C1, amended: in both normalizers the initial drop succeeds exactly when every listed
  column is present, and then removes the listed columns and nothing else; for a data set
  that lacks one or more of them the step raises \<open>KeyError\<close>.
\<close>

theorem drop_step_raises_iff_missing:
  "(transform_cobertura_movil_drop df = Inl KeyError \<longleftrightarrow>
      \<not> set cols_to_drop_cobertura \<subseteq> set (columns df)) \<and>
   (transform_cobertura_movil_drop df =
      Inr (filter (\<lambda>col. fst col \<notin> set cols_to_drop_cobertura) df) \<longleftrightarrow>
      set cols_to_drop_cobertura \<subseteq> set (columns df)) \<and>
   (transform_accesos_drop df = Inl KeyError \<longleftrightarrow>
      \<not> set cols_to_drop_accesos \<subseteq> set (columns df)) \<and>
   (transform_accesos_drop df =
      Inr (filter (\<lambda>col. fst col \<notin> set cols_to_drop_accesos) df) \<longleftrightarrow>
      set cols_to_drop_accesos \<subseteq> set (columns df))"
  unfolding transform_cobertura_movil_drop_def transform_accesos_drop_def
  by (simp add: drop_columns_Inl drop_columns_Inr)

theorem drop_step_raises_iff_missing_witness:
  "transform_accesos_drop
     [(''COD_DEPARTAMENTO'', [''5'']), (''COD_MUNICIPIO'', [''5001'']), (''SEGMENTO'', [''1'']),
      (''PROVEEDOR'', [''CLARO''])]
     = Inr [(''PROVEEDOR'', [''CLARO''])] \<and>
   transform_accesos_drop [(''COD_DEPARTAMENTO'', [''5'']), (''PROVEEDOR'', [''CLARO''])]
     = Inl KeyError"
  using drop_step_raises_iff_missing
    [of "[(''COD_DEPARTAMENTO'', [''5'']), (''COD_MUNICIPIO'', [''5001'']), (''SEGMENTO'', [''1'']),
          (''PROVEEDOR'', [''CLARO''])]"]
    drop_step_raises_iff_missing [of "[(''COD_DEPARTAMENTO'', [''5'']), (''PROVEEDOR'', [''CLARO''])]"]
  by (simp add: cols_to_drop_accesos_def cols_to_drop_cobertura_def columns_def)

section \<open>The coverage data set: properties\<close>

lemma set_drop_duplicates: "set (drop_duplicates xs) = set xs"
  by (induction xs rule: drop_duplicates.induct) auto

lemma distinct_drop_duplicates: "distinct (drop_duplicates xs)"
  by (induction xs rule: drop_duplicates.induct) (auto simp: set_drop_duplicates)

lemma kleene_or_True: "kleene_or a b = Some True \<longleftrightarrow> a = Some True \<or> b = Some True"
  by (induction a b rule: kleene_or.induct) auto

lemma kleene_or_False: "kleene_or a b = Some False \<longleftrightarrow> a = Some False \<and> b = Some False"
  by (induction a b rule: kleene_or.induct) auto

lemma kleene_or_None:
  "kleene_or a b = None \<longleftrightarrow> a \<noteq> Some True \<and> b \<noteq> Some True \<and> (a = None \<or> b = None)"
  by (induction a b rule: kleene_or.induct) auto

lemma char_upper_S: "char_upper c = CHR ''S'' \<longleftrightarrow> c = CHR ''S'' \<or> c = CHR ''s''"
  by (auto simp: char_upper_def ascii_lowercase_def ascii_uppercase_def)

lemma char_upper_N: "char_upper c = CHR ''N'' \<longleftrightarrow> c = CHR ''N'' \<or> c = CHR ''n''"
  by (auto simp: char_upper_def ascii_lowercase_def ascii_uppercase_def)

lemma str_upper_S: "str_upper t = ''S'' \<longleftrightarrow> t = ''S'' \<or> t = ''s''"
  by (cases t) (auto simp: str_upper_def char_upper_S)

lemma str_upper_N: "str_upper t = ''N'' \<longleftrightarrow> t = ''N'' \<or> t = ''n''"
  by (cases t) (auto simp: str_upper_def char_upper_N)

lemma coerce_marker_cases:
  "coerce_marker c =
     (if str_upper (str_strip (astype_str c)) = ''S'' then Some True
      else if str_upper (str_strip (astype_str c)) = ''N'' then Some False
      else None)"
  by (simp add: coerce_marker_def marker_dict_def)

lemma in_transform_cobertura_movil:
  "n \<in> set (transform_cobertura_movil rows) \<longleftrightarrow> (\<exists>r \<in> set rows. n = transform_cobertura_row r)"
  by (auto simp: transform_cobertura_movil_def set_drop_duplicates)

lemma sum_markers_count: "sum_markers ms = int (length (filter (\<lambda>m. m = Some True) ms))"
  by (induction ms) (auto simp: sum_markers_def split: option.splits bool.splits)

lemma example_cobertura_rows:
  "transform_cobertura_row cob_claro_1 \<in> set (transform_cobertura_movil example_cobertura)"
  "transform_cobertura_row cob_claro_2 \<in> set (transform_cobertura_movil example_cobertura)"
  "transform_cobertura_row cob_tigo \<in> set (transform_cobertura_movil example_cobertura)"
  by (simp_all add: in_transform_cobertura_movil example_cobertura_def)

lemma example_markers:
  "coerce_marker (Str ''S'') = Some True" "coerce_marker (Str '' s '') = Some True"
  "coerce_marker (Str ''N'') = Some False" "coerce_marker (Str ''n'') = Some False"
  "coerce_marker (Str ''NO'') = None" "coerce_marker Missing = None"
  by (simp_all add: coerce_marker_def marker_dict_def astype_str_def str_strip_def is_space_def
      upper_eval)

text \<open>
  C6: a technology marker is coerced, after trimming and upper-casing, to true exactly
  for the text \<open>S\<close> and to false exactly for the text \<open>N\<close>; every other value, the
  missing value included, becomes the missing boolean and never false. For a stored text
  in ASCII this means: true exactly when the trimmed text is \<open>S\<close> or \<open>s\<close>, false exactly
  when it is \<open>N\<close> or \<open>n\<close>. Each of the six marker columns of a normalized row is computed
  so.
\<close>

theorem coerce_marker_exact:
  "coerce_marker c =
     (if str_upper (str_strip (astype_str c)) = ''S'' then Some True
      else if str_upper (str_strip (astype_str c)) = ''N'' then Some False
      else None) \<and>
   (coerce_marker c = Some True \<longleftrightarrow> str_upper (str_strip (astype_str c)) = ''S'') \<and>
   (coerce_marker c = Some False \<longleftrightarrow> str_upper (str_strip (astype_str c)) = ''N'') \<and>
   (coerce_marker c = None \<longleftrightarrow>
      str_upper (str_strip (astype_str c)) \<noteq> ''S'' \<and> str_upper (str_strip (astype_str c)) \<noteq> ''N'') \<and>
   (is_ascii s \<longrightarrow>
      (coerce_marker (Str s) = Some True \<longleftrightarrow> str_strip s = ''S'' \<or> str_strip s = ''s'')) \<and>
   (is_ascii s \<longrightarrow>
      (coerce_marker (Str s) = Some False \<longleftrightarrow> str_strip s = ''N'' \<or> str_strip s = ''n'')) \<and>
   coerce_marker Missing = None \<and>
   cobertura_2g (transform_cobertura_row r) = coerce_marker (raw_2g r) \<and>
   cobertura_3g (transform_cobertura_row r) = coerce_marker (raw_3g r) \<and>
   cobertura_4g (transform_cobertura_row r) = coerce_marker (raw_4g r) \<and>
   cobertura_5g (transform_cobertura_row r) = coerce_marker (raw_5g r) \<and>
   cobertura_lte (transform_cobertura_row r) = coerce_marker (raw_lte r) \<and>
   cobertura_hspa (transform_cobertura_row r) = coerce_marker (raw_hspa r)"
proof -
  let ?u = "str_upper (str_strip (astype_str c))"
  have c1: "coerce_marker c =
      (if ?u = ''S'' then Some True else if ?u = ''N'' then Some False else None)"
    by (rule coerce_marker_cases)
  have c2: "coerce_marker c = Some True \<longleftrightarrow> ?u = ''S''"
    unfolding c1 by simp
  have c3: "coerce_marker c = Some False \<longleftrightarrow> ?u = ''N''"
    unfolding c1 by auto
  have c4: "coerce_marker c = None \<longleftrightarrow> ?u \<noteq> ''S'' \<and> ?u \<noteq> ''N''"
    unfolding c1 by simp
  have t: "is_ascii s \<longrightarrow>
      (coerce_marker (Str s) = Some True \<longleftrightarrow> str_strip s = ''S'' \<or> str_strip s = ''s'')"
    by (simp add: coerce_marker_cases astype_str_def str_upper_S str_upper_N)
  have f: "is_ascii s \<longrightarrow>
      (coerce_marker (Str s) = Some False \<longleftrightarrow> str_strip s = ''N'' \<or> str_strip s = ''n'')"
    by (auto simp add: coerce_marker_cases astype_str_def str_upper_S str_upper_N)
  have m: "coerce_marker Missing = None"
    by (rule example_markers)
  have cols: "cobertura_2g (transform_cobertura_row r) = coerce_marker (raw_2g r)"
    "cobertura_3g (transform_cobertura_row r) = coerce_marker (raw_3g r)"
    "cobertura_4g (transform_cobertura_row r) = coerce_marker (raw_4g r)"
    "cobertura_5g (transform_cobertura_row r) = coerce_marker (raw_5g r)"
    "cobertura_lte (transform_cobertura_row r) = coerce_marker (raw_lte r)"
    "cobertura_hspa (transform_cobertura_row r) = coerce_marker (raw_hspa r)"
    by (simp_all add: transform_cobertura_row_def)
  from c1 c2 c3 c4 t f m cols show ?thesis
    by (intro conjI)
qed

theorem coerce_marker_exact_witness:
  "is_ascii '' s '' \<and> coerce_marker (Str '' s '') = Some True \<and>
   is_ascii ''N'' \<and> coerce_marker (Str ''N'') = Some False \<and>
   coerce_marker (Str ''NO'') = None \<and> coerce_marker (Str '''') = None \<and>
   cobertura_hspa (transform_cobertura_row cob_claro_2) = None"
proof -
  have a1: "is_ascii '' s ''" and a2: "is_ascii ''N''"
    by code_simp+
  have s1: "str_strip '' s '' = ''s''" and s2: "str_strip ''N'' = ''N''"
    by (simp_all add: str_strip_def is_space_def)
  have u3: "str_upper (str_strip (astype_str (Str ''NO''))) = ''NO''"
    and u4: "str_upper (str_strip (astype_str (Str ''''))) = ''''"
    by (simp_all add: astype_str_def str_strip_def is_space_def upper_eval)
  have "coerce_marker (Str '' s '') = Some True \<longleftrightarrow>
      str_strip '' s '' = ''S'' \<or> str_strip '' s '' = ''s''"
    using coerce_marker_exact [where s = "'' s ''"] a1 by blast
  then have e1: "coerce_marker (Str '' s '') = Some True"
    by (simp add: s1)
  have "coerce_marker (Str ''N'') = Some False \<longleftrightarrow>
      str_strip ''N'' = ''N'' \<or> str_strip ''N'' = ''n''"
    using coerce_marker_exact [where s = "''N''"] a2 by blast
  then have e2: "coerce_marker (Str ''N'') = Some False"
    by (simp add: s2)
  have "coerce_marker (Str ''NO'') = None \<longleftrightarrow>
      str_upper (str_strip (astype_str (Str ''NO''))) \<noteq> ''S'' \<and>
      str_upper (str_strip (astype_str (Str ''NO''))) \<noteq> ''N''"
    using coerce_marker_exact [where c = "Str ''NO''"] by blast
  then have e3: "coerce_marker (Str ''NO'') = None"
    by (simp add: u3)
  have "coerce_marker (Str '''') = None \<longleftrightarrow>
      str_upper (str_strip (astype_str (Str ''''))) \<noteq> ''S'' \<and>
      str_upper (str_strip (astype_str (Str ''''))) \<noteq> ''N''"
    using coerce_marker_exact [where c = "Str ''''"] by blast
  then have e4: "coerce_marker (Str '''') = None"
    by (simp add: u4)
  have e5: "cobertura_hspa (transform_cobertura_row cob_claro_2) = None"
  proof -
    note e = coerce_marker_exact [where r = cob_claro_2]
    from e have a: "coerce_marker Missing = None" by blast
    from e have b: "cobertura_hspa (transform_cobertura_row cob_claro_2) =
        coerce_marker (raw_hspa cob_claro_2)" by blast
    have c: "raw_hspa cob_claro_2 = Missing" by (simp add: cob_claro_2_def)
    show ?thesis using a b c by simp
  qed
  show ?thesis using a1 a2 e1 e2 e3 e4 e5 by (intro conjI)
qed

text \<open>
  C4: in every normalized coverage row, \<open>tiene_4g_o_mas\<close> is the three-valued (Kleene)
  disjunction of the 4G, LTE and 5G markers: true iff at least one of the three is true,
  false iff all three are false, and missing iff none is true and at least one is missing.
\<close>

theorem tiene_4g_o_mas_kleene:
  assumes "n \<in> set (transform_cobertura_movil rows)"
  shows "tiene_4g_o_mas n = kleene_or (kleene_or (cobertura_4g n) (cobertura_lte n)) (cobertura_5g n) \<and>
    (tiene_4g_o_mas n = Some True \<longleftrightarrow>
       cobertura_4g n = Some True \<or> cobertura_lte n = Some True \<or> cobertura_5g n = Some True) \<and>
    (tiene_4g_o_mas n = Some False \<longleftrightarrow>
       cobertura_4g n = Some False \<and> cobertura_lte n = Some False \<and> cobertura_5g n = Some False) \<and>
    (tiene_4g_o_mas n = None \<longleftrightarrow>
       cobertura_4g n \<noteq> Some True \<and> cobertura_lte n \<noteq> Some True \<and> cobertura_5g n \<noteq> Some True \<and>
       (cobertura_4g n = None \<or> cobertura_lte n = None \<or> cobertura_5g n = None))"
proof -
  from assms obtain r where n: "n = transform_cobertura_row r"
    by (auto simp: in_transform_cobertura_movil)
  have eq: "tiene_4g_o_mas n = kleene_or (kleene_or (cobertura_4g n) (cobertura_lte n)) (cobertura_5g n)"
    by (simp add: n transform_cobertura_row_def)
  show ?thesis
    unfolding eq by (auto simp: kleene_or_True kleene_or_False kleene_or_None)
qed

theorem tiene_4g_o_mas_kleene_witness:
  "tiene_4g_o_mas (transform_cobertura_row cob_claro_1) = None \<and>
   tiene_4g_o_mas (transform_cobertura_row cob_claro_2) = Some True \<and>
   tiene_4g_o_mas (transform_cobertura_row cob_tigo) = Some False"
  using tiene_4g_o_mas_kleene [OF example_cobertura_rows(1)]
    tiene_4g_o_mas_kleene [OF example_cobertura_rows(2)]
    tiene_4g_o_mas_kleene [OF example_cobertura_rows(3)]
  by (simp add: transform_cobertura_row_def cob_claro_1_def cob_claro_2_def cob_tigo_def
      example_markers)

text \<open>
  C7: in every normalized coverage row, \<open>total_tecnologias\<close> is the number of the six
  marker columns that are true in that row, a missing marker counting 0; hence it lies
  between 0 and 6.
\<close>

theorem total_tecnologias_count:
  assumes "n \<in> set (transform_cobertura_movil rows)"
  shows "total_tecnologias n =
      int (length (filter (\<lambda>m. m = Some True)
        [cobertura_2g n, cobertura_3g n, cobertura_4g n, cobertura_5g n, cobertura_lte n,
         cobertura_hspa n])) \<and>
    0 \<le> total_tecnologias n \<and> total_tecnologias n \<le> 6"
proof -
  from assms obtain r where n: "n = transform_cobertura_row r"
    by (auto simp: in_transform_cobertura_movil)
  have cols: "[cobertura_2g n, cobertura_3g n, cobertura_4g n, cobertura_5g n, cobertura_lte n,
      cobertura_hspa n] = tech_cols r"
    by (simp add: n transform_cobertura_row_def tech_cols_def)
  have tot: "total_tecnologias n = sum_markers (tech_cols r)"
    by (simp add: n transform_cobertura_row_def)
  have len: "length (filter (\<lambda>m. m = Some True) (tech_cols r)) \<le> 6"
    using length_filter_le [of "\<lambda>m. m = Some True" "tech_cols r"] by (simp add: tech_cols_def)
  show ?thesis
    unfolding cols tot sum_markers_count using len by simp
qed

theorem total_tecnologias_count_witness:
  "total_tecnologias (transform_cobertura_row cob_claro_1) = 0 \<and>
   total_tecnologias (transform_cobertura_row cob_claro_2) = 3 \<and>
   total_tecnologias (transform_cobertura_row cob_tigo) = 2"
  using total_tecnologias_count [OF example_cobertura_rows(1)]
    total_tecnologias_count [OF example_cobertura_rows(2)]
    total_tecnologias_count [OF example_cobertura_rows(3)]
  by (simp add: transform_cobertura_row_def cob_claro_1_def cob_claro_2_def cob_tigo_def
      example_markers)

section \<open>Numeric coercion: properties\<close>












section \<open>Grouping and merging: properties\<close>

lemma groupby_keys:
  "map fst (groupby key agg rows) =
     sort_key key_tuple (remdups (map key (filter (\<lambda>r. key_complete (key r)) rows)))"
  by (simp add: groupby_def Let_def comp_def)

lemma set_groupby_keys:
  "set (map fst (groupby key agg rows)) = key ` {r \<in> set rows. key_complete (key r)}"
  unfolding groupby_keys by auto

lemma distinct_groupby_keys: "distinct (map fst (groupby key agg rows))"
  unfolding groupby_keys by simp

lemma groupby_complete:
  assumes "(k, a) \<in> set (groupby key agg rows)"
  shows "key_complete k"
proof -
  from assms have "k \<in> set (map fst (groupby key agg rows))" by force
  then show ?thesis unfolding set_groupby_keys by auto
qed

lemma groupby_agg:
  assumes "(k, a) \<in> set (groupby key agg rows)"
  shows "a = agg (filter (\<lambda>r. key r = k) (filter (\<lambda>r. key_complete (key r)) rows))"
  using assms by (auto simp: groupby_def Let_def)

lemma groupby_group_set:
  assumes "(k, a) \<in> set (groupby key agg rows)"
  shows "set (filter (\<lambda>r. key r = k) (filter (\<lambda>r. key_complete (key r)) rows)) =
    {r \<in> set rows. key r = k}"
  using groupby_complete [OF assms] by auto

lemma groupby_filter_complete:
  "groupby key agg (filter (\<lambda>r. key_complete (key r)) rows) = groupby key agg rows"
  by (simp add: groupby_def)

lemma fold_any: 
  "fold (\<lambda>x acc. case x of None \<Rightarrow> acc | Some b \<Rightarrow> acc \<or> b) xs acc \<longleftrightarrow> acc \<or> Some True \<in> set xs"
  by (induction xs arbitrary: acc) (auto split: option.splits)

lemma group_any_iff: "group_any xs = Some (Some True \<in> set xs)"
  by (simp add: group_any_def fold_any)

lemma matching_keys:
  "distinct (map fst right) \<Longrightarrow>
     map (\<lambda>r. k) (filter (\<lambda>r. fst r = k) right) = (if k \<in> fst ` set right then [k] else [])"
proof (induction right)
  case Nil
  then show ?case by simp
next
  case (Cons r rs)
  show ?case
  proof (cases "fst r = k")
    case True
    with Cons.prems have "k \<notin> fst ` set rs" by auto
    then have "filter (\<lambda>r. fst r = k) rs = []" by (auto simp: filter_empty_conv)
    with True show ?thesis by simp
  next
    case False
    with Cons show ?thesis by auto
  qed
qed

lemma merge_inner_keys:
  assumes "distinct (map fst right)"
  shows "map fst (merge_inner left right) = filter (\<lambda>k. k \<in> fst ` set right) (map fst left)"
proof (induction left)
  case Nil
  show ?case by (simp add: merge_inner_def)
next
  case (Cons l ls)
  have step: "merge_inner (l # ls) right =
      map (\<lambda>r. (fst l, snd l, snd r)) (filter (\<lambda>r. fst r = fst l) right) @ merge_inner ls right"
    by (simp add: merge_inner_def)
  have "map fst (map (\<lambda>r. (fst l, snd l, snd r)) (filter (\<lambda>r. fst r = fst l) right)) =
      map (\<lambda>r. fst l) (filter (\<lambda>r. fst r = fst l) right)"
    by simp
  also have "\<dots> = (if fst l \<in> fst ` set right then [fst l] else [])"
    by (rule matching_keys [OF assms])
  finally show ?case using Cons.IH by (simp add: step)
qed

lemma in_merge_inner:
  "(k, a, b) \<in> set (merge_inner left right) \<longleftrightarrow> (k, a) \<in> set left \<and> (k, b) \<in> set right"
  by (force simp: merge_inner_def)

lemma count_distinct: "distinct xs \<Longrightarrow> length (filter (\<lambda>x. x = k) xs) = (if k \<in> set xs then 1 else 0)"
  by (induction xs) auto

lemma example_grouped_keys:
  "map fst (cobertura_grouped example_df_cobertura) = [key_claro, key_tigo]"
  "map fst (accesos_grouped example_df_accesos) = [key_claro, key_movistar]"
  by code_simp+

lemma example_merged_keys:
  "map fst (merge_datasets example_df_cobertura example_df_accesos) = [key_claro]"
  by code_simp

lemma example_claro_group:
  "(key_claro, agg_cobertura (filter (\<lambda>r. joinkey.truncate r = key_claro) example_df_cobertura))
     \<in> set (cobertura_grouped example_df_cobertura)"
  by code_simp

lemma example_claro_markers:
  "map cobertura_5g (filter (\<lambda>r. joinkey.truncate r = key_claro) example_df_cobertura) = [None, None]"
  "map cobertura_lte (filter (\<lambda>r. joinkey.truncate r = key_claro) example_df_cobertura) =
     [Some False, Some False]"
  "map cobertura_hspa (filter (\<lambda>r. joinkey.truncate r = key_claro) example_df_cobertura) = [None, None]"
  "map cobertura_4g (filter (\<lambda>r. joinkey.truncate r = key_claro) example_df_cobertura) =
     [Some False, Some True]"
  by code_simp+

lemma agg_cobertura_any:
  "cobertura_2g_any (agg_cobertura g) = group_any (map cobertura_2g g)"
  "cobertura_3g_any (agg_cobertura g) = group_any (map cobertura_3g g)"
  "cobertura_hspa_any (agg_cobertura g) = group_any (map cobertura_hspa g)"
  "cobertura_4g_any (agg_cobertura g) = group_any (map cobertura_4g g)"
  "cobertura_lte_any (agg_cobertura g) = group_any (map cobertura_lte g)"
  "cobertura_5g_any (agg_cobertura g) = group_any (map cobertura_5g g)"
  "tiene_4g_o_mas_any (agg_cobertura g) = group_any (map tiene_4g_o_mas g)"
  by (simp_all add: agg_cobertura_def)

text \<open>
  C5: in the coverage grouping, each of the six marker columns (and \<open>tiene_4g_o_mas\<close>)
  is reduced over the rows of a key by a disjunction that treats a missing value as false:
  the result is true when some row of the group has a true marker and false otherwise, so
  a group with only missing and false markers gives false and never the missing value.
  This differs from the disjunction of a single row, which for a missing and a false
  operand gives the missing value.
\<close>

theorem group_any_null_as_false:
  assumes "(k, a) \<in> set (cobertura_grouped df)"
  shows "cobertura_2g_any a = Some (Some True \<in> cobertura_2g ` {r \<in> set df. joinkey.truncate r = k}) \<and>
    cobertura_3g_any a = Some (Some True \<in> cobertura_3g ` {r \<in> set df. joinkey.truncate r = k}) \<and>
    cobertura_hspa_any a = Some (Some True \<in> cobertura_hspa ` {r \<in> set df. joinkey.truncate r = k}) \<and>
    cobertura_4g_any a = Some (Some True \<in> cobertura_4g ` {r \<in> set df. joinkey.truncate r = k}) \<and>
    cobertura_lte_any a = Some (Some True \<in> cobertura_lte ` {r \<in> set df. joinkey.truncate r = k}) \<and>
    cobertura_5g_any a = Some (Some True \<in> cobertura_5g ` {r \<in> set df. joinkey.truncate r = k}) \<and>
    tiene_4g_o_mas_any a =
      Some (Some True \<in> tiene_4g_o_mas ` {r \<in> set df. joinkey.truncate r = k}) \<and>
    group_any [None, Some False] = Some False \<and>
    kleene_or None (Some False) = None"
proof -
  let ?g = "filter (\<lambda>r. joinkey.truncate r = k)
      (filter (\<lambda>r. key_complete (joinkey.truncate r)) df)"
  from assms have grp: "(k, a) \<in> set (groupby joinkey.truncate agg_cobertura df)"
    by (simp add: cobertura_grouped_def)
  have a: "a = agg_cobertura ?g"
    by (rule groupby_agg [OF grp])
  have g: "set ?g = {r \<in> set df. joinkey.truncate r = k}"
    by (rule groupby_group_set [OF grp])
  have col: "group_any (map f ?g) = Some (Some True \<in> f ` {r \<in> set df. joinkey.truncate r = k})"
    for f :: "cobertura_row \<Rightarrow> bool option"
    unfolding group_any_iff set_map g ..
  have ex: "group_any [None, Some False] = Some False"
    by (simp add: group_any_iff)
  show ?thesis
    unfolding a agg_cobertura_any col using ex by simp
qed

theorem group_any_null_as_false_witness:
  "cobertura_5g_any (agg_cobertura
     (filter (\<lambda>r. joinkey.truncate r = key_claro) example_df_cobertura)) = Some False \<and>
   cobertura_hspa_any (agg_cobertura
     (filter (\<lambda>r. joinkey.truncate r = key_claro) example_df_cobertura)) = Some False \<and>
   cobertura_lte_any (agg_cobertura
     (filter (\<lambda>r. joinkey.truncate r = key_claro) example_df_cobertura)) = Some False \<and>
   cobertura_4g_any (agg_cobertura
     (filter (\<lambda>r. joinkey.truncate r = key_claro) example_df_cobertura)) = Some True"
proof -
  let ?g = "filter (\<lambda>r. joinkey.truncate r = key_claro) example_df_cobertura"
  have g: "{r \<in> set example_df_cobertura. joinkey.truncate r = key_claro} = set ?g"
    by simp
  have m: "cobertura_5g ` set ?g = {None}" "cobertura_hspa ` set ?g = {None}"
    "cobertura_lte ` set ?g = {Some False}" "cobertura_4g ` set ?g = {Some False, Some True}"
    using example_claro_markers [THEN arg_cong, of set] by (simp_all del: set_filter)
  show ?thesis
    using group_any_null_as_false [OF example_claro_group]
    unfolding g m by simp
qed

text \<open>
  C9: the merge is an inner join on the join key. The keys of the merged output are
  exactly the keys common to the grouped coverage and the grouped access data; there is
  exactly one output row for each common key and none for a key of only one grouping; the
  output row of a key carries the reduced values of both groupings for that key.
\<close>

theorem merge_keys_intersection:
  "set (map fst (merge_datasets df_cobertura df_accesos)) =
     set (map fst (cobertura_grouped df_cobertura)) \<inter> set (map fst (accesos_grouped df_accesos)) \<and>
   distinct (map fst (merge_datasets df_cobertura df_accesos)) \<and>
   length (filter (\<lambda>m. fst m = k) (merge_datasets df_cobertura df_accesos)) =
     (if k \<in> set (map fst (cobertura_grouped df_cobertura)) \<and>
         k \<in> set (map fst (accesos_grouped df_accesos)) then 1 else 0) \<and>
   ((k, a, b) \<in> set (merge_datasets df_cobertura df_accesos) \<longleftrightarrow>
      (k, a) \<in> set (cobertura_grouped df_cobertura) \<and> (k, b) \<in> set (accesos_grouped df_accesos))"
proof -
  let ?l = "cobertura_grouped df_cobertura" and ?r = "accesos_grouped df_accesos"
  let ?m = "merge_datasets df_cobertura df_accesos"
  have dl: "distinct (map fst ?l)" and dr: "distinct (map fst ?r)"
    by (simp_all add: cobertura_grouped_def accesos_grouped_def distinct_groupby_keys)
  have keys: "map fst ?m = filter (\<lambda>k. k \<in> fst ` set ?r) (map fst ?l)"
    unfolding merge_datasets_def by (rule merge_inner_keys [OF dr])
  have s: "set (map fst ?m) = set (map fst ?l) \<inter> set (map fst ?r)"
    unfolding keys by auto
  have d: "distinct (map fst ?m)"
    unfolding keys using dl by simp
  have "length (filter (\<lambda>m. fst m = k) ?m) = length (filter (\<lambda>x. x = k) (map fst ?m))"
    by (simp add: filter_map comp_def)
  also have "\<dots> = (if k \<in> set (map fst ?m) then 1 else 0)"
    by (rule count_distinct [OF d])
  finally have c: "length (filter (\<lambda>m. fst m = k) ?m) =
      (if k \<in> set (map fst ?l) \<and> k \<in> set (map fst ?r) then 1 else 0)"
    unfolding s by simp
  have i: "(k, a, b) \<in> set ?m \<longleftrightarrow> (k, a) \<in> set ?l \<and> (k, b) \<in> set ?r"
    by (simp add: merge_datasets_def in_merge_inner)
  show ?thesis using s d c i by blast
qed

theorem merge_keys_intersection_witness:
  "set (map fst (merge_datasets example_df_cobertura example_df_accesos)) = {key_claro} \<and>
   set (map fst (cobertura_grouped example_df_cobertura)) = {key_claro, key_tigo} \<and>
   set (map fst (accesos_grouped example_df_accesos)) = {key_claro, key_movistar} \<and>
   length (filter (\<lambda>m. fst m = key_claro)
     (merge_datasets example_df_cobertura example_df_accesos)) = 1 \<and>
   length (filter (\<lambda>m. fst m = key_tigo)
     (merge_datasets example_df_cobertura example_df_accesos)) = 0"
proof -
  have ne: "key_tigo \<noteq> key_claro" "key_tigo \<noteq> key_movistar" "key_movistar \<noteq> key_claro"
    by (simp_all add: key_tigo_def key_claro_def key_movistar_def)
  note m = merge_keys_intersection [of example_df_cobertura example_df_accesos]
  have "set (map fst (merge_datasets example_df_cobertura example_df_accesos)) = {key_claro}"
    using m [of key_claro, THEN conjunct1] ne unfolding example_grouped_keys by auto
  moreover have "length (filter (\<lambda>m. fst m = key_claro)
      (merge_datasets example_df_cobertura example_df_accesos)) = 1"
    using m [of key_claro, THEN conjunct2, THEN conjunct2, THEN conjunct1]
    unfolding example_grouped_keys by simp
  moreover have "length (filter (\<lambda>m. fst m = key_tigo)
      (merge_datasets example_df_cobertura example_df_accesos)) = 0"
    using m [of key_tigo, THEN conjunct2, THEN conjunct2, THEN conjunct1] ne
    unfolding example_grouped_keys by simp
  ultimately show ?thesis
    unfolding example_grouped_keys by simp
qed

text \<open>
  C10: every row of the grouped coverage data, of the grouped access data and of the
  merged output has a join key with none of its five fields missing. A normalized row
  with a missing value in a key column is left out by the grouping and contributes to no
  output row: removing all such rows from the input changes neither grouping nor the
  merged output.
\<close>

theorem grouped_keys_complete:
  "(\<forall>k \<in> set (map fst (cobertura_grouped df_cobertura)).
      ano k \<noteq> None \<and> trimestre k \<noteq> None \<and> departamento k \<noteq> None \<and> municipio k \<noteq> None \<and>
      proveedor k \<noteq> None) \<and>
   (\<forall>k \<in> set (map fst (accesos_grouped df_accesos)).
      ano k \<noteq> None \<and> trimestre k \<noteq> None \<and> departamento k \<noteq> None \<and> municipio k \<noteq> None \<and>
      proveedor k \<noteq> None) \<and>
   (\<forall>k \<in> set (map fst (merge_datasets df_cobertura df_accesos)).
      ano k \<noteq> None \<and> trimestre k \<noteq> None \<and> departamento k \<noteq> None \<and> municipio k \<noteq> None \<and>
      proveedor k \<noteq> None) \<and>
   cobertura_grouped (filter (\<lambda>r. key_complete (joinkey.truncate r)) df_cobertura) =
     cobertura_grouped df_cobertura \<and>
   accesos_grouped (filter (\<lambda>r. key_complete (joinkey.truncate r)) df_accesos) =
     accesos_grouped df_accesos \<and>
   merge_datasets (filter (\<lambda>r. key_complete (joinkey.truncate r)) df_cobertura)
       (filter (\<lambda>r. key_complete (joinkey.truncate r)) df_accesos) =
     merge_datasets df_cobertura df_accesos"
proof -
  have c: "key_complete k" if "k \<in> set (map fst (cobertura_grouped df_cobertura))" for k
    using that unfolding cobertura_grouped_def set_groupby_keys by auto
  have a: "key_complete k" if "k \<in> set (map fst (accesos_grouped df_accesos))" for k
    using that unfolding accesos_grouped_def set_groupby_keys by auto
  have m: "key_complete k" if "k \<in> set (map fst (merge_datasets df_cobertura df_accesos))" for k
  proof -
    from that obtain x y where "(k, x, y) \<in> set (merge_datasets df_cobertura df_accesos)"
      by force
    then have "(k, x) \<in> set (cobertura_grouped df_cobertura)"
      by (simp add: merge_datasets_def in_merge_inner)
    then have "k \<in> set (map fst (cobertura_grouped df_cobertura))" by force
    then show ?thesis by (rule c)
  qed
  have fc: "cobertura_grouped (filter (\<lambda>r. key_complete (joinkey.truncate r)) df_cobertura) =
      cobertura_grouped df_cobertura"
    unfolding cobertura_grouped_def by (rule groupby_filter_complete)
  have fa: "accesos_grouped (filter (\<lambda>r. key_complete (joinkey.truncate r)) df_accesos) =
      accesos_grouped df_accesos"
    unfolding accesos_grouped_def by (rule groupby_filter_complete)
  have fm: "merge_datasets (filter (\<lambda>r. key_complete (joinkey.truncate r)) df_cobertura)
       (filter (\<lambda>r. key_complete (joinkey.truncate r)) df_accesos) =
     merge_datasets df_cobertura df_accesos"
    by (simp add: merge_datasets_def fc fa)
  show ?thesis
    using c a m fc fa fm unfolding key_complete_def by blast
qed

theorem grouped_keys_complete_witness:
  "key_claro \<in> set (map fst (merge_datasets example_df_cobertura example_df_accesos)) \<and>
   proveedor key_claro \<noteq> None \<and> municipio key_claro \<noteq> None \<and>
   key_tigo \<in> set (map fst (cobertura_grouped example_df_cobertura)) \<and>
   proveedor key_tigo \<noteq> None \<and>
   key_movistar \<in> set (map fst (accesos_grouped example_df_accesos)) \<and>
   municipio key_movistar \<noteq> None \<and>
   length (filter (\<lambda>r. \<not> key_complete (joinkey.truncate r)) example_df_cobertura) = 1 \<and>
   length (filter (\<lambda>r. \<not> key_complete (joinkey.truncate r)) example_df_accesos) = 1"
proof -
  note g = grouped_keys_complete [of example_df_cobertura example_df_accesos]
  have k1: "key_claro \<in> set (map fst (merge_datasets example_df_cobertura example_df_accesos))"
    unfolding example_merged_keys by simp
  have k2: "key_tigo \<in> set (map fst (cobertura_grouped example_df_cobertura))"
    unfolding example_grouped_keys by simp
  have k3: "key_movistar \<in> set (map fst (accesos_grouped example_df_accesos))"
    unfolding example_grouped_keys by simp
  have n1: "length (filter (\<lambda>r. \<not> key_complete (joinkey.truncate r)) example_df_cobertura) = 1"
    by code_simp
  have n2: "length (filter (\<lambda>r. \<not> key_complete (joinkey.truncate r)) example_df_accesos) = 1"
    by code_simp
  show ?thesis
    using g k1 k2 k3 n1 n2 by blast
qed

end
